theory Spec2Isabelle
  imports Complex_Main
begin

section \<open>Exceptions\<close>

text \<open>
  The exceptions that the modelled code can raise. The \<open>ValueError\<close> of \<open>from_dict\<close>
  carries the name of the dataclass that is put into its message, the one of
  \<open>np.zeros\<close> its message; \<open>SystemExit\<close> carries the message given to it, and
  \<open>SaveError\<close> stands for whatever \<open>log_manager.save_checkpoint\<close> raises when it
  fails.
\<close>

datatype exn =
    TypeError
  | ValueError string
  | ZeroDivisionError
  | SaveError
  | SystemExit string

section \<open>config.py: from_dict\<close>

text \<open>
  Dictionary values: a value that cannot be iterated (int, float, bool, None), a string,
  a list, or a dictionary with string keys in insertion order.
\<close>

datatype val =
    Scalar int
  | Str string
  | Lst "val list"
  | Dict "(string \<times> val) list"

text \<open>
  A dataclass type: its \<open>__name__\<close> and its fields in declaration order. A field has a
  name, a type (a nested dataclass, for which \<open>is_dataclass\<close> holds, or anything
  else) and a flag telling whether it has a default.
\<close>

datatype dcls = DCls string "(string \<times> ftype \<times> bool) list"
  and ftype = Plain | Nested dcls

text \<open>
  A constructed dataclass instance: every field holds the value passed for it, a nested
  instance, or its default.
\<close>

datatype inst =
    PlainV val
  | DefaultV
  | Obj string "(string \<times> inst) list"

fun cname :: "dcls \<Rightarrow> string" where
  "cname (DCls n fs) = n"

fun cfields :: "dcls \<Rightarrow> (string \<times> ftype \<times> bool) list" where
  "cfields (DCls n fs) = fs"

text \<open>\<open>fieldtypes = {f.name: f.type for f in fields(cls)}\<close>\<close>

definition fieldtypes :: "dcls \<Rightarrow> string \<Rightarrow> ftype option" where
  "fieldtypes c = map_of (map (\<lambda>(f, ty, d). (f, ty)) (cfields c))"

text \<open>
  \<open>cls(**kwargs)\<close> for keyword arguments that are all field names: the generated
  \<open>__init__\<close> raises TypeError when a field without default is missing, and otherwise
  fills the fields in declaration order.
\<close>

definition construct_dataclass :: "dcls \<Rightarrow> (string \<times> inst) list \<Rightarrow> exn + inst" where
  "construct_dataclass c kwargs =
     (if list_ex (\<lambda>(f, ty, d). \<not> d \<and> map_of kwargs f = None) (cfields c)
      then Inl TypeError
      else Inr (Obj (cname c)
             (map (\<lambda>(f, ty, d). (f, case map_of kwargs f of Some v \<Rightarrow> v | None \<Rightarrow> DefaultV))
                  (cfields c))))"

text \<open>\<open>except Exception as e: raise ValueError(f"Error converting dictionary to {cls.__name__}: {e}")\<close>\<close>

definition reraise :: "dcls \<Rightarrow> exn + 'a \<Rightarrow> exn + 'a" where
  "reraise c r = (case r of Inl e \<Rightarrow> Inl (ValueError (cname c)) | Inr x \<Rightarrow> Inr x)"

text \<open>
  An element \<open>f\<close> of a list that makes the comprehension raise: \<open>f in fieldtypes\<close>
  raises TypeError for an unhashable element, and for a string that is a field name
  \<open>dikt[f]\<close> raises TypeError (a list is not indexed by strings).
\<close>

fun bad_element :: "dcls \<Rightarrow> val \<Rightarrow> bool" where
  "bad_element c (Lst vs) = True"
| "bad_element c (Dict kvs) = True"
| "bad_element c (Str s) = (fieldtypes c s \<noteq> None)"
| "bad_element c (Scalar x) = False"

text \<open>
  \<open>from_dict\<close>. The comprehension iterates \<open>for f in dikt\<close>: a scalar is not
  iterable (TypeError); a string yields its characters and a list its elements, and
  indexing either by a field name raises TypeError; a dictionary yields its keys, those
  that are no field are skipped, and the value of a key that is a field is converted
  recursively when the field's type is a dataclass. \<open>convert\<close> is the comprehension over
  the items of a dictionary, stopping at the first exception.
\<close>

fun from_dict :: "dcls \<Rightarrow> val \<Rightarrow> exn + inst"
  and convert :: "dcls \<Rightarrow> (string \<times> val) list \<Rightarrow> exn + (string \<times> inst) list" where
  "from_dict c (Scalar x) = reraise c (Inl TypeError)"
| "from_dict c (Str s) =
     reraise c (if list_ex (\<lambda>ch. fieldtypes c [ch] \<noteq> None) s then Inl TypeError
                else construct_dataclass c [])"
| "from_dict c (Lst vs) =
     reraise c (if list_ex (bad_element c) vs then Inl TypeError else construct_dataclass c [])"
| "from_dict c (Dict kvs) =
     reraise c (case convert c kvs of Inl e \<Rightarrow> Inl e | Inr kwargs \<Rightarrow> construct_dataclass c kwargs)"
| "convert c [] = Inr []"
| "convert c ((f, v) # kvs) =
     (case fieldtypes c f of
        None \<Rightarrow> convert c kvs
      | Some ty \<Rightarrow>
          (case (case ty of Nested c' \<Rightarrow> from_dict c' v | Plain \<Rightarrow> Inr (PlainV v)) of
             Inl e \<Rightarrow> Inl e
           | Inr i \<Rightarrow>
               (case convert c kvs of Inl e \<Rightarrow> Inl e | Inr kwargs \<Rightarrow> Inr ((f, i) # kwargs))))"

section \<open>train.py: GracefulKiller\<close>

text \<open>
  The handlers that \<open>signal.signal\<close> accepts and returns for a process whose handlers
  were installed from Python: the two special values, Python's own handler for SIGINT,
  some other callable, and the bound method \<open>killer.exit_gracefully\<close>.
\<close>

datatype handler =
    SIG_DFL
  | SIG_IGN
  | default_int_handler
  | Callable nat
  | ExitGracefully

datatype signum = SIGINT | SIGTERM

text \<open>The handlers the process has installed for the two signals.\<close>

record sigtable =
  on_int :: handler
  on_term :: handler

text \<open>What happens to the outside while the killer runs, in order.\<close>

datatype kevent =
    Print string
  | SetHandler signum handler
  | SetKillNow

record GracefulKiller =
  kill_now :: bool
  original_int :: handler
  original_term :: handler

record kworld =
  killer :: GracefulKiller
  table :: sigtable
  ktrace :: "kevent list"

text \<open>\<open>signal.signal(signalnum, handler)\<close> installs the handler and returns the previous one.\<close>

fun signal_signal :: "signum \<Rightarrow> handler \<Rightarrow> sigtable \<Rightarrow> handler \<times> sigtable" where
  "signal_signal SIGINT h t = (on_int t, t\<lparr>on_int := h\<rparr>)"
| "signal_signal SIGTERM h t = (on_term t, t\<lparr>on_term := h\<rparr>)"

text \<open>\<open>GracefulKiller()\<close>: the class attribute \<open>kill_now = False\<close> and \<open>__init__\<close>.\<close>

definition GracefulKiller_init :: "sigtable \<Rightarrow> kworld" where
  "GracefulKiller_init t =
     (let (oi, t1) = signal_signal SIGINT ExitGracefully t;
          (ot, t2) = signal_signal SIGTERM ExitGracefully t1
      in \<lparr>killer = \<lparr>kill_now = False, original_int = oi, original_term = ot\<rparr>,
          table = t2,
          ktrace = [SetHandler SIGINT ExitGracefully, SetHandler SIGTERM ExitGracefully]\<rparr>)"

text \<open>\<open>exit_gracefully(self, signum, frame)\<close>; the signal number is deleted unused.\<close>

definition exit_gracefully :: "signum \<Rightarrow> kworld \<Rightarrow> kworld" where
  "exit_gracefully sig w =
     (if kill_now (killer w) then w
      else
        (let k = killer w;
             (_, t1) = signal_signal SIGINT (original_int k) (table w);
             (_, t2) = signal_signal SIGTERM (original_term k) t1
         in \<lparr>killer = k\<lparr>kill_now := True\<rparr>,
             table = t2,
             ktrace = ktrace w @
               [Print [CHR 0x0D],
                SetHandler SIGINT (original_int k),
                SetHandler SIGTERM (original_term k),
                SetKillNow]\<rparr>))"

section \<open>config.py: the configuration read by train.py\<close>

datatype OptimizerName = adam | kfac | none

record MCMC =
  burn_in :: int
  adapt_frequency :: int

record Optim =
  iterations :: int
  optimizer :: "OptimizerName option"

record Log =
  save_path :: "string option"
  restore_path :: "string option"
  save_time_interval :: int
  save_step_interval :: int
  initial_energy :: bool

record Config =
  mcmc :: MCMC
  optim :: Optim
  log_cfg :: Log

section \<open>train.py: data\<close>

text \<open>
  A floating-point number is kept only as far as the loop looks at it: finite, one of
  the infinities, or NaN. \<open>stats["energy"]\<close> is an array of complex numbers, one per
  device, each a pair of a real and an imaginary part.
\<close>

datatype float = Finite real | PosInf | NegInf | NaN

definition isnan :: "float \<Rightarrow> bool" where
  "isnan x = (x = NaN)"

definition isfinite :: "float \<Rightarrow> bool" where
  "isfinite x = (case x of Finite r \<Rightarrow> True | _ \<Rightarrow> False)"

record stats =
  energy :: "(float \<times> float) list"

text \<open>\<open>jnp.isnan(stats["energy"].real).any()\<close>\<close>

definition energy_isnan :: "stats \<Rightarrow> bool" where
  "energy_isnan st = list_ex (\<lambda>c. isnan (fst c)) (energy st)"

record ('p, 'd, 'o, 'w) CheckpointState =
  params :: 'p
  data :: 'd
  opt_state :: "'o option"
  mcmc_width :: 'w

text \<open>The calls that leave the loop, in the order in which they are made.\<close>

datatype ('p, 'd, 'o, 'w) event =
    McmcStep
  | UpdateMcmcWidth int
  | TrainingStep
  | InfoStart
  | InfoBurnIn
  | InfoInitialEnergy
  | InfoTimePerStep
  | WriterLog int
  | ForceFlush
  | SaveCheckpoint int "('p, 'd, 'o, 'w) CheckpointState"

text \<open>
  What the loop calls and reads from outside: the sampler, the step-width controller
  \<open>mcmc.update_mcmc_width\<close>, the optimizer, the splitting of random keys, the result of
  \<open>log_manager.try_restore_checkpoint()\<close>, the freshly initialised parameters, data and
  width, and for every step the clock read at it, the flag \<open>killer.kill_now\<close> as read in
  the save condition and as read in the exit condition, and whether
  \<open>log_manager.save_checkpoint\<close> raises.
\<close>

record ('p, 'd, 'o, 'w, 'k) env =
  pmap_mcmc_step :: "'p \<Rightarrow> 'd \<Rightarrow> 'k \<Rightarrow> 'w \<Rightarrow> 'd \<times> real"
  update_mcmc_width :: "int \<Rightarrow> 'w \<Rightarrow> int \<Rightarrow> real \<Rightarrow> real list \<Rightarrow> 'w \<times> real list"
  opt_init :: "'p \<Rightarrow> 'k \<Rightarrow> 'd \<Rightarrow> 'o"
  training_step ::
    "('p, 'd, 'o, 'w) CheckpointState \<Rightarrow> 'k \<Rightarrow> ('p, 'd, 'o, 'w) CheckpointState \<times> stats"
  p_split :: "'k \<Rightarrow> 'k \<times> 'k"
  first_key :: 'k
  try_restore_checkpoint :: "(int \<times> ('p, 'd, 'o, 'w) CheckpointState) option"
  init_params :: 'p
  init_guess :: 'd
  init_width :: 'w
  start_time :: real
  clock :: "int \<Rightarrow> real"
  kill_in_save_check :: "int \<Rightarrow> bool"
  kill_in_exit_check :: "int \<Rightarrow> bool"
  save_raises :: "int \<Rightarrow> bool"

text \<open>The local variables of \<open>train_loop\<close> and of \<open>train\<close>, and the calls made so far.\<close>

record ('p, 'd, 'o, 'w, 'k) run =
  sharded_key :: 'k
  pmoves :: "real list"
  state :: "('p, 'd, 'o, 'w) CheckpointState"
  time_start :: "real option"
  steps :: int
  last_save_time :: real
  trace :: "('p, 'd, 'o, 'w) event list"

text \<open>An iteration either goes on to the next one or raises, leaving the locals as they are.\<close>

datatype 'r result = Next 'r | Raise exn 'r

section \<open>train.py: train_loop\<close>

text \<open>\<open>pmoves = np.zeros(cfg.mcmc.adapt_frequency)\<close> in \<open>setup_mcmc\<close>.\<close>

definition setup_mcmc :: "Config \<Rightarrow> exn + real list" where
  "setup_mcmc cfg =
     (if adapt_frequency (mcmc cfg) < 0 then Inl (ValueError ''negative dimensions are not allowed'')
      else Inr (replicate (nat (adapt_frequency (mcmc cfg))) 0))"

definition initialize_state ::
  "('p, 'd, 'o, 'w, 'k) env \<Rightarrow> int \<times> ('p, 'd, 'o, 'w) CheckpointState" where
  "initialize_state env =
     (0, \<lparr>params = init_params env, data = init_guess env, opt_state = None,
          mcmc_width = init_width env\<rparr>)"

text \<open>The condition under which \<open>train_loop\<close> sets \<open>initial_step = 0\<close>.\<close>

definition warm_start :: "Config \<Rightarrow> bool" where
  "warm_start cfg =
     (optimizer (optim cfg) = Some none
      \<and> restore_path (log_cfg cfg) \<noteq> None
      \<and> restore_path (log_cfg cfg) \<noteq> save_path (log_cfg cfg))"

text \<open>
  \<open>train_loop\<close> from the random key to the construction of \<open>state\<close>, burn-in apart: the
  checkpoint is restored or the state initialised, the step is reset for a warm start,
  and a missing optimizer state is initialised. The result is the initial step, the
  random key and the state.
\<close>

definition resolve ::
  "Config \<Rightarrow> ('p, 'd, 'o, 'w, 'k) env \<Rightarrow> int \<times> 'k \<times> ('p, 'd, 'o, 'w) CheckpointState" where
  "resolve cfg env =
     (let (restored_step, st) =
            (case try_restore_checkpoint env of Some r \<Rightarrow> r | None \<Rightarrow> initialize_state env);
          initial_step = (if warm_start cfg then 0 else restored_step);
          (key, opt) =
            (case opt_state st of
               None \<Rightarrow>
                 (let (key', subkey) = p_split env (first_key env)
                  in (key', opt_init env (params st) subkey (data st)))
             | Some opt \<Rightarrow> (first_key env, opt))
      in (initial_step, key, st\<lparr>opt_state := Some opt\<rparr>))"

text \<open>The loop \<open>for _ in range(cfg.mcmc.burn_in)\<close>, with its number of rounds left to run.\<close>

fun burn_in_rounds ::
  "('p, 'd, 'o, 'w, 'k) env \<Rightarrow> nat \<Rightarrow> ('p, 'd, 'o, 'w, 'k) run \<Rightarrow> ('p, 'd, 'o, 'w, 'k) run" where
  "burn_in_rounds env 0 r = r"
| "burn_in_rounds env (Suc n) r =
     (let (key, subkey) = p_split env (sharded_key r);
          st = state r;
          (new_data, pmove) = pmap_mcmc_step env (params st) (data st) subkey (mcmc_width st)
      in burn_in_rounds env n
           (r\<lparr>sharded_key := key, state := st\<lparr>data := new_data\<rparr>, trace := trace r @ [McmcStep]\<rparr>))"

text \<open>The block \<open>if initial_step == 0:\<close> of \<open>train_loop\<close>.\<close>

definition burn_in_phase ::
  "Config \<Rightarrow> ('p, 'd, 'o, 'w, 'k) env \<Rightarrow> int \<Rightarrow> ('p, 'd, 'o, 'w, 'k) run \<Rightarrow> ('p, 'd, 'o, 'w, 'k) run" where
  "burn_in_phase cfg env initial_step r =
     (if initial_step = 0 then
        (let r1 = burn_in_rounds env (nat (burn_in (mcmc cfg))) r;
             r2 = r1\<lparr>trace := trace r1 @ [InfoBurnIn]\<rparr>
         in if initial_energy (log_cfg cfg) then r2\<lparr>trace := trace r2 @ [InfoInitialEnergy]\<rparr>
            else r2)
      else r)"

text \<open>
  The body of the main loop of \<open>train_loop\<close> for one \<open>step\<close>, up to its \<open>yield\<close>: the
  new locals and the yielded state, statistics and acceptance rate.
\<close>

definition loop_body ::
  "Config \<Rightarrow> ('p, 'd, 'o, 'w, 'k) env \<Rightarrow> int \<Rightarrow> int \<Rightarrow> ('p, 'd, 'o, 'w, 'k) run \<Rightarrow>
   ('p, 'd, 'o, 'w, 'k) run \<times> stats \<times> real" where
  "loop_body cfg env initial_step step r =
     (let (key1, subkey1) = p_split env (sharded_key r);
          st = state r;
          (new_data, pmove) = pmap_mcmc_step env (params st) (data st) subkey1 (mcmc_width st);
          (new_mcmc_width, pmoves') =
            update_mcmc_width env (step - initial_step) (mcmc_width st)
              (adapt_frequency (mcmc cfg)) pmove (pmoves r);
          st1 = st\<lparr>data := new_data, mcmc_width := new_mcmc_width\<rparr>;
          (key2, subkey2) = p_split env key1;
          (st2, sts) = training_step env st1 subkey2
      in (r\<lparr>sharded_key := key2, pmoves := pmoves', state := st2,
            trace := trace r @ [McmcStep, UpdateMcmcWidth (step - initial_step), TrainingStep]\<rparr>,
          sts, pmove))"

section \<open>train.py: train\<close>

text \<open>\<open>"=" * 30 + " ABORT " + "=" * 30\<close>\<close>

definition abort_banner :: string where
  "abort_banner = replicate 30 (CHR ''='') @ '' ABORT '' @ replicate 30 (CHR ''='')"

text \<open>
  The condition of the statement that saves the checkpoint, evaluated from left to
  right; the remainder is reached only when the time interval has passed, and raises
  when \<open>save_step_interval\<close> is 0.
\<close>

definition save_due :: "Config \<Rightarrow> int \<Rightarrow> stats \<Rightarrow> bool \<Rightarrow> real \<Rightarrow> real \<Rightarrow> exn + bool" where
  "save_due cfg step sts kill current_time last_save =
     (if energy_isnan sts then Inr True
      else if step = iterations (optim cfg) - 1 then Inr True
      else if kill then Inr True
      else if current_time - last_save > real_of_int (save_time_interval (log_cfg cfg)) then
        (if save_step_interval (log_cfg cfg) = 0 then Inl ZeroDivisionError
         else Inr ((step + 1) mod save_step_interval (log_cfg cfg) = 0))
      else Inr False)"

text \<open>\<open>if killer.kill_now or jnp.isnan(stats["energy"].real).any(): raise SystemExit(...)\<close>\<close>

definition exit_check ::
  "('p, 'd, 'o, 'w, 'k) env \<Rightarrow> int \<Rightarrow> stats \<Rightarrow> ('p, 'd, 'o, 'w, 'k) run \<Rightarrow>
   ('p, 'd, 'o, 'w, 'k) run result" where
  "exit_check env step sts r =
     (if kill_in_exit_check env step \<or> energy_isnan sts then Raise (SystemExit abort_banner) r
      else Next r)"

text \<open>The body of the loop of \<open>train\<close> for one yielded \<open>step, state, stats, pmove\<close>.\<close>

definition train_body ::
  "Config \<Rightarrow> ('p, 'd, 'o, 'w, 'k) env \<Rightarrow> int \<Rightarrow> stats \<Rightarrow> ('p, 'd, 'o, 'w, 'k) run \<Rightarrow>
   ('p, 'd, 'o, 'w, 'k) run result" where
  "train_body cfg env step sts r =
     (let r1 = r\<lparr>trace := trace r @ [WriterLog step]\<rparr>;
          current_time = clock env step;
          r2 = (case time_start r1 of
                  None \<Rightarrow> r1\<lparr>time_start := Some current_time\<rparr>
                | Some t \<Rightarrow> r1\<lparr>steps := steps r1 + 1\<rparr>)
      in case save_due cfg step sts (kill_in_save_check env step) current_time (last_save_time r2) of
           Inl e \<Rightarrow> Raise e r2
         | Inr False \<Rightarrow> exit_check env step sts r2
         | Inr True \<Rightarrow>
             (let r3 = r2\<lparr>last_save_time := current_time, trace := trace r2 @ [ForceFlush]\<rparr>
              in if save_raises env step then Raise SaveError r3
                 else exit_check env step sts
                        (r3\<lparr>trace := trace r3 @ [SaveCheckpoint step (state r3)]\<rparr>)))"

text \<open>One step of \<open>train_loop\<close> followed by the body of the loop of \<open>train\<close> that consumes it.\<close>

definition iteration ::
  "Config \<Rightarrow> ('p, 'd, 'o, 'w, 'k) env \<Rightarrow> int \<Rightarrow> int \<Rightarrow> ('p, 'd, 'o, 'w, 'k) run \<Rightarrow>
   ('p, 'd, 'o, 'w, 'k) run result" where
  "iteration cfg env initial_step step r =
     (let (r', sts, pmove) = loop_body cfg env initial_step step r
      in train_body cfg env step sts r')"

text \<open>
  \<open>for step in range(initial_step, cfg.optim.iterations)\<close>, from \<open>step\<close> on: the
  generator is resumed only when the body of the loop of \<open>train\<close> has run without
  raising.
\<close>

function main_loop ::
  "Config \<Rightarrow> ('p, 'd, 'o, 'w, 'k) env \<Rightarrow> int \<Rightarrow> int \<Rightarrow> ('p, 'd, 'o, 'w, 'k) run \<Rightarrow>
   ('p, 'd, 'o, 'w, 'k) run result" where
  "main_loop cfg env initial_step step r =
     (if step < iterations (optim cfg) then
        (case iteration cfg env initial_step step r of
           Raise e r' \<Rightarrow> Raise e r'
         | Next r' \<Rightarrow> main_loop cfg env initial_step (step + 1) r')
      else Next r)"
  by pat_completeness auto
termination
  by (relation "measure (\<lambda>(cfg, env, initial_step, step, r). nat (iterations (optim cfg) - step))")
     auto

declare main_loop.simps [simp del]

text \<open>
  \<open>train\<close>: the locals are initialised, \<open>train_loop\<close> runs up to its main loop when its
  first item is asked for, the main loop runs, and the time per step is reported when
  more than one step was made.
\<close>

definition train ::
  "Config \<Rightarrow> ('p, 'd, 'o, 'w, 'k) env \<Rightarrow> exn + ('p, 'd, 'o, 'w, 'k) run result" where
  "train cfg env =
     (case setup_mcmc cfg of
        Inl e \<Rightarrow> Inl e
      | Inr zeros \<Rightarrow>
          (let (initial_step, key, st) = resolve cfg env;
               r0 = \<lparr>sharded_key = key, pmoves = zeros, state = st, time_start = None,
                     steps = 0, last_save_time = start_time env, trace = [InfoStart]\<rparr>;
               r1 = burn_in_phase cfg env initial_step r0
           in Inr (case main_loop cfg env initial_step initial_step r1 of
                     Raise e r \<Rightarrow> Raise e r
                   | Next r \<Rightarrow>
                       Next (if steps r > 0 \<and> time_start r \<noteq> None
                             then r\<lparr>trace := trace r @ [InfoTimePerStep]\<rparr> else r))))"

section \<open>The collaborators that are not part of train.py\<close>

text \<open>
  Modelled from the spec: \<open>mcmc.update_mcmc_width\<close> (the module \<open>deephall.mcmc\<close> is
  missing). On every call it writes \<open>latest_acceptance\<close> into the window slot
  \<open>iteration_index mod window_size\<close>; exactly when
  \<open>(iteration_index + 1) mod window_size == 0\<close> it rescales the width from the window,
  and on all other calls the width is returned unchanged. The rescaling is a parameter.
\<close>

definition update_mcmc_width_spec ::
  "('w \<Rightarrow> real list \<Rightarrow> 'w) \<Rightarrow> int \<Rightarrow> 'w \<Rightarrow> int \<Rightarrow> real \<Rightarrow> real list \<Rightarrow> 'w \<times> real list" where
  "update_mcmc_width_spec rescale iteration_index current_width window_size latest_acceptance window =
     (let window' = window[nat (iteration_index mod window_size) := latest_acceptance]
      in (if (iteration_index + 1) mod window_size = 0 then rescale current_width window'
          else current_width,
          window'))"

text \<open>
  Modelled from the spec: \<open>LogManager.save_checkpoint\<close> (the module \<open>deephall.log\<close> is
  missing) persists \<open>(step, state)\<close> to the configured save location if a save location
  is configured, and not otherwise. \<open>persisted\<close> are the checkpoints that the calls of a
  trace leave at the save location.
\<close>

fun persisted ::
  "string option \<Rightarrow> ('p, 'd, 'o, 'w) event list \<Rightarrow> (int \<times> ('p, 'd, 'o, 'w) CheckpointState) list" where
  "persisted location [] = []"
| "persisted location (SaveCheckpoint step st # evs) =
     (case location of None \<Rightarrow> persisted location evs
      | Some path \<Rightarrow> (step, st) # persisted location evs)"
| "persisted location (ev # evs) = persisted location evs"

text \<open>The steps for which a trace calls \<open>save_checkpoint\<close>.\<close>

fun saved_steps :: "('p, 'd, 'o, 'w) event list \<Rightarrow> int list" where
  "saved_steps [] = []"
| "saved_steps (SaveCheckpoint step st # evs) = step # saved_steps evs"
| "saved_steps (ev # evs) = saved_steps evs"

section \<open>Reading results\<close>

fun run_of :: "'r result \<Rightarrow> 'r" where
  "run_of (Next r) = r"
| "run_of (Raise e r) = r"

fun raised :: "'r result \<Rightarrow> exn option" where
  "raised (Next r) = None"
| "raised (Raise e r) = Some e"

text \<open>The calls made between the locals \<open>r\<close> and the later locals \<open>r'\<close>.\<close>

definition events_since ::
  "('p, 'd, 'o, 'w, 'k) run \<Rightarrow> ('p, 'd, 'o, 'w, 'k) run \<Rightarrow> ('p, 'd, 'o, 'w) event list" where
  "events_since r r' = drop (length (trace r)) (trace r')"

section \<open>Concrete inputs\<close>

text \<open>Two of the dataclasses of config.py; all their fields have defaults.\<close>

definition PsiformerNetwork :: dcls where
  "PsiformerNetwork =
     DCls ''PsiformerNetwork''
       [(''num_heads'', Plain, True), (''heads_dim'', Plain, True),
        (''num_layers'', Plain, True), (''determinants'', Plain, True)]"

definition Network :: dcls where
  "Network =
     DCls ''Network''
       [(''type'', Plain, True), (''orbital'', Plain, True),
        (''psiformer'', Nested PsiformerNetwork, True)]"

text \<open>The handlers of a Python process that has installed none of its own.\<close>

definition python_defaults :: sigtable where
  "python_defaults = \<lparr>on_int = default_int_handler, on_term = SIG_DFL\<rparr>"

text \<open>
  A configuration with a minimum save interval of 10 seconds, a save step multiple of
  5, eleven iterations, two burn-in rounds and a window of four acceptance rates.
\<close>

definition demo_cfg :: Config where
  "demo_cfg =
     \<lparr>mcmc = \<lparr>burn_in = 2, adapt_frequency = 4\<rparr>,
      optim = \<lparr>iterations = 11, optimizer = Some kfac\<rparr>,
      log_cfg = \<lparr>save_path = Some ''ckpt'', restore_path = None, save_time_interval = 10,
                 save_step_interval = 5, initial_energy = True\<rparr>\<rparr>"

text \<open>
  Collaborators over natural numbers: the sampler counts its calls in the data and
  accepts half of the moves, the controller does nothing, the training step counts its
  calls in the parameters and returns a finite energy, the clock advances by 3 seconds
  per step from the start at 0, no signal arrives and no save fails.
\<close>

definition demo_env :: "(nat, nat, nat, nat, nat) env" where
  "demo_env =
     \<lparr>pmap_mcmc_step = (\<lambda>p d k w. (d + 1, 1 / 2)),
      update_mcmc_width = (\<lambda>t w n pmove window. (w, window)),
      opt_init = (\<lambda>p k d. 0),
      training_step =
        (\<lambda>st k. (st\<lparr>params := params st + 1\<rparr>, \<lparr>energy = [(Finite 0, Finite 0)]\<rparr>)),
      p_split = (\<lambda>k. (2 * k + 1, 2 * k + 2)),
      first_key = 0,
      try_restore_checkpoint = None,
      init_params = 0,
      init_guess = 0,
      init_width = 1,
      start_time = 0,
      clock = (\<lambda>step. 3 * (real_of_int step + 1)),
      kill_in_save_check = (\<lambda>step. False),
      kill_in_exit_check = (\<lambda>step. False),
      save_raises = (\<lambda>step. False)\<rparr>"

text \<open>The locals at the start of the main loop of a fresh run that started at time 0.\<close>

definition demo_run :: "(nat, nat, nat, nat, nat) run" where
  "demo_run =
     \<lparr>sharded_key = 0, pmoves = [0, 0, 0, 0],
      state = \<lparr>params = 0, data = 0, opt_state = Some 0, mcmc_width = 1\<rparr>,
      time_start = None, steps = 0, last_save_time = 0, trace = []\<rparr>"

definition ok_stats :: stats where
  "ok_stats = \<lparr>energy = [(Finite 0, Finite 0)]\<rparr>"

definition nan_stats :: stats where
  "nan_stats = \<lparr>energy = [(NaN, Finite 0)]\<rparr>"

text \<open>A checkpoint written at step 500.\<close>

definition demo_checkpoint :: "int \<times> (nat, nat, nat, nat) CheckpointState" where
  "demo_checkpoint = (500, \<lparr>params = 42, data = 7, opt_state = None, mcmc_width = 3\<rparr>)"

text \<open>
  The training step returns a NaN energy on its eighth call, that is at step 7 of a
  fresh run.
\<close>

definition nan_env :: "(nat, nat, nat, nat, nat) env" where
  "nan_env =
     demo_env\<lparr>training_step :=
       (\<lambda>st k. (st\<lparr>params := params st + 1\<rparr>,
                \<lparr>energy = [(if params st = 7 then NaN else Finite 0, Finite 0)]\<rparr>))\<rparr>"

text \<open>A termination signal has arrived before the first step.\<close>

definition kill_env :: "(nat, nat, nat, nat, nat) env" where
  "kill_env =
     demo_env\<lparr>kill_in_save_check := (\<lambda>step. True), kill_in_exit_check := (\<lambda>step. True)\<rparr>"

text \<open>
  A termination signal arrives in every iteration after the save condition has read
  \<open>killer.kill_now\<close> and before the exit condition reads it.
\<close>

definition race_env :: "(nat, nat, nat, nat, nat) env" where
  "race_env = demo_env\<lparr>kill_in_exit_check := (\<lambda>step. True)\<rparr>"

text \<open>Every call of \<open>save_checkpoint\<close> raises.\<close>

definition failing_env :: "(nat, nat, nat, nat, nat) env" where
  "failing_env = demo_env\<lparr>save_raises := (\<lambda>step. True)\<rparr>"

text \<open>The controller is the one modelled from the spec.\<close>

definition spec_env :: "(nat, nat, nat, nat, nat) env" where
  "spec_env = demo_env\<lparr>update_mcmc_width := update_mcmc_width_spec (\<lambda>w window. w + 1)\<rparr>"

text \<open>The locals of a fresh run before step 7, the last save having been made at step 4.\<close>

definition run_at_7 :: "(nat, nat, nat, nat, nat) run" where
  "run_at_7 =
     demo_run\<lparr>state := \<lparr>params = 7, data = 7, opt_state = Some 0, mcmc_width = 1\<rparr>,
              time_start := Some 3, steps := 6, last_save_time := 15\<rparr>"

section \<open>Auxiliary facts\<close>

lemmas demo_defs =
  demo_cfg_def demo_env_def demo_run_def ok_stats_def nan_stats_def nan_env_def kill_env_def
  race_env_def failing_env_def spec_env_def run_at_7_def

lemma reraise_Inl: "reraise c r = Inl e \<Longrightarrow> e = ValueError (cname c)"
  by (auto simp: reraise_def split: sum.splits)

lemma from_dict_Inl: "from_dict c d = Inl e \<Longrightarrow> e = ValueError (cname c)"
  by (cases d) (auto dest: reraise_Inl)

lemma convert_filter:
  "convert c (filter (\<lambda>(f, v). fieldtypes c f \<noteq> None) kvs) = convert c kvs"
  by (induction kvs) (auto split: option.splits sum.splits ftype.splits)

lemma convert_extra_key:
  "fieldtypes c f = None \<Longrightarrow> convert c (xs @ (f, v) # ys) = convert c (xs @ ys)"
  by (induction xs) (auto split: option.splits sum.splits ftype.splits)

text \<open>
  The burn-in loop in closed form: \<open>n\<close> rounds of splitting the key and sampling, one
  call of the sampler per round, and nothing else.
\<close>

lemma burn_in_rounds_eq:
  "burn_in_rounds env n r =
     r\<lparr>sharded_key :=
         fst (((\<lambda>(key, d). (fst (p_split env key),
                 fst (pmap_mcmc_step env (params (state r)) d (snd (p_split env key))
                        (mcmc_width (state r))))) ^^ n) (sharded_key r, data (state r))),
       state := (state r)\<lparr>data :=
         snd (((\<lambda>(key, d). (fst (p_split env key),
                 fst (pmap_mcmc_step env (params (state r)) d (snd (p_split env key))
                        (mcmc_width (state r))))) ^^ n) (sharded_key r, data (state r)))\<rparr>,
       trace := trace r @ replicate n McmcStep\<rparr>"
proof (induction n arbitrary: r)
  case 0
  show ?case by simp
next
  case (Suc n)
  define F where "F = (\<lambda>(key, d). (fst (p_split env key),
                 fst (pmap_mcmc_step env (params (state r)) d (snd (p_split env key))
                        (mcmc_width (state r)))))"
  define r1 where "r1 = r\<lparr>sharded_key := fst (p_split env (sharded_key r)),
       state := (state r)\<lparr>data := fst (pmap_mcmc_step env (params (state r)) (data (state r))
           (snd (p_split env (sharded_key r))) (mcmc_width (state r)))\<rparr>,
       trace := trace r @ [McmcStep]\<rparr>"
  have step: "burn_in_rounds env (Suc n) r = burn_in_rounds env n r1"
    by (simp add: r1_def Let_def split: prod.splits)
  have kd: "(sharded_key r1, data (state r1)) = F (sharded_key r, data (state r))"
    by (simp add: r1_def F_def)
  have inv: "params (state r1) = params (state r)" "mcmc_width (state r1) = mcmc_width (state r)"
    by (simp_all add: r1_def)
  have pow: "(F ^^ n) (sharded_key r1, data (state r1)) = (F ^^ Suc n) (sharded_key r, data (state r))"
    by (simp add: kd funpow_swap1)
  show ?case
    unfolding step Suc.IH [of r1] inv F_def [symmetric] pow
    by (simp add: r1_def replicate_app_Cons_same)
qed

lemma energy_isnanI: "(NaN, im) \<in> set (energy sts) \<Longrightarrow> energy_isnan sts"
  unfolding energy_isnan_def isnan_def list_ex_iff by force

lemma abort_banner_text:
  "abort_banner = ''============================== ABORT ==============================''"
  by (simp add: abort_banner_def eval_nat_numeral)

section \<open>Checkpoint cadence and abort (train)\<close>

text \<open>
  Claim C1, as the code has it. For a step at which \<open>save_checkpoint\<close> does not raise
  and with a save step multiple other than 0, the body of the loop of \<open>train\<close> leaves a
  checkpoint at the save location if and only if a save location is configured and
  either the save is forced (a NaN energy, the last iteration, or the kill flag) or
  strictly more than \<open>save_time_interval\<close> seconds have passed since the last save and
  \<open>(step + 1) mod save_step_interval = 0\<close>; the checkpoint is that of the step and state
  just yielded. In particular no step saves while at most \<open>save_time_interval\<close> seconds
  have passed since the last save, and a forced save does not depend on the time or on
  the step.
\<close>

theorem save_cadence:
  assumes "\<not> save_raises env step" and "save_step_interval (log_cfg cfg) \<noteq> 0"
  shows "persisted (save_path (log_cfg cfg))
           (events_since r (run_of (train_body cfg env step sts r))) =
     (if save_path (log_cfg cfg) \<noteq> None
         \<and> (energy_isnan sts \<or> step = iterations (optim cfg) - 1 \<or> kill_in_save_check env step
            \<or> (clock env step - last_save_time r > real_of_int (save_time_interval (log_cfg cfg))
               \<and> (step + 1) mod save_step_interval (log_cfg cfg) = 0))
      then [(step, state r)] else [])"
  using assms
  by (auto simp: train_body_def events_since_def save_due_def exit_check_def Let_def
      split: option.splits bool.splits)

text \<open>
  With a minimum interval of 10 seconds, a step multiple of 5 and the last save at time
  0: step 4 saves at time 15, step 3 does not, step 3 with a NaN energy does, and step
  4 with the kill flag set saves at time 1.
\<close>

theorem save_cadence_witness:
  "\<not> save_raises demo_env 4
   \<and> save_step_interval (log_cfg demo_cfg) \<noteq> 0
   \<and> persisted (save_path (log_cfg demo_cfg))
        (events_since demo_run (run_of (train_body demo_cfg demo_env 4 ok_stats demo_run))) =
       [(4, state demo_run)]
   \<and> persisted (save_path (log_cfg demo_cfg))
        (events_since demo_run (run_of (train_body demo_cfg demo_env 3 ok_stats demo_run))) = []
   \<and> persisted (save_path (log_cfg demo_cfg))
        (events_since demo_run (run_of (train_body demo_cfg demo_env 3 nan_stats demo_run))) =
       [(3, state demo_run)]
   \<and> persisted (save_path (log_cfg demo_cfg))
        (events_since demo_run
          (run_of (train_body demo_cfg (kill_env\<lparr>clock := \<lambda>step. 1\<rparr>) 4 ok_stats demo_run))) =
       [(4, state demo_run)]"
  using save_cadence [of demo_env 4 demo_cfg demo_run ok_stats]
    save_cadence [of demo_env 3 demo_cfg demo_run ok_stats]
    save_cadence [of demo_env 3 demo_cfg demo_run nan_stats]
    save_cadence [of "kill_env\<lparr>clock := \<lambda>step. 1\<rparr>" 4 demo_cfg demo_run ok_stats]
  by (simp add: demo_defs energy_isnan_def isnan_def)

text \<open>
  Claim C1 as stated fails twice. With a save location configured, exactly 10 seconds
  (at least the minimum interval of 10) passed since the last save and
  \<open>(4 + 1) mod 5 = 0\<close>, step 4 does not save. And when the steps 0 to 9 are checked 3
  seconds apart, the first 3 seconds after the start, the checkpoint is saved at the
  steps 4 and 9, 15 seconds having passed since the last save each time (step 10 is the
  last iteration).
\<close>

theorem save_cadence_counterexample:
  "save_path (log_cfg demo_cfg) \<noteq> None
   \<and> real_of_int (save_time_interval (log_cfg demo_cfg)) \<le> 10 - last_save_time demo_run
   \<and> (4 + 1) mod save_step_interval (log_cfg demo_cfg) = 0
   \<and> persisted (save_path (log_cfg demo_cfg))
        (events_since demo_run
          (run_of (train_body demo_cfg (demo_env\<lparr>clock := \<lambda>step. 10\<rparr>) 4 ok_stats demo_run))) = []
   \<and> saved_steps (trace (run_of (main_loop demo_cfg demo_env 0 0 demo_run))) = [4, 9, 10]"
  by (simp add: main_loop.simps demo_defs iteration_def loop_body_def events_since_def
      train_body_def save_due_def exit_check_def energy_isnan_def isnan_def)

text \<open>
  Claim C2, as the code has it. When the real part of the energy of any device is NaN,
  the save condition holds whatever the step, the time and the kill flag are, and the
  body of the loop raises: \<open>SystemExit\<close> after the checkpoint of the step has been
  saved, or the exception of the save when that fails.
\<close>

theorem divergence_trigger:
  assumes "(NaN, im) \<in> set (energy sts)"
  shows "save_due cfg step sts kill now last_save = Inr True
     \<and> raised (train_body cfg env step sts r) =
         Some (if save_raises env step then SaveError else SystemExit abort_banner)
     \<and> saved_steps (events_since r (run_of (train_body cfg env step sts r))) =
         (if save_raises env step then [] else [step])"
  using energy_isnanI [OF assms]
  by (auto simp: train_body_def events_since_def save_due_def exit_check_def Let_def
      split: option.splits)

theorem divergence_trigger_witness:
  "(NaN, Finite 0) \<in> set (energy nan_stats)
   \<and> save_due demo_cfg 3 nan_stats False 1 0 = Inr True
   \<and> raised (train_body demo_cfg demo_env 3 nan_stats demo_run) = Some (SystemExit abort_banner)
   \<and> saved_steps (events_since demo_run (run_of (train_body demo_cfg demo_env 3 nan_stats demo_run))) =
       [3]"
  using divergence_trigger [of "Finite 0" nan_stats demo_cfg 3 False 1 0 demo_env demo_run]
  by (simp add: demo_defs)

text \<open>
  Claim C2 as stated fails: an energy whose real part is infinite, and an energy whose
  imaginary part is NaN, are not finite, and at step 3 neither saves nor raises.
\<close>

theorem divergence_trigger_counterexample:
  "\<not> isfinite PosInf \<and> \<not> isfinite NaN
   \<and> raised (train_body demo_cfg demo_env 3 \<lparr>energy = [(PosInf, Finite 0)]\<rparr> demo_run) = None
   \<and> saved_steps
       (trace (run_of (train_body demo_cfg demo_env 3 \<lparr>energy = [(PosInf, Finite 0)]\<rparr> demo_run))) = []
   \<and> raised (train_body demo_cfg demo_env 3 \<lparr>energy = [(Finite 0, NaN)]\<rparr> demo_run) = None
   \<and> saved_steps
       (trace (run_of (train_body demo_cfg demo_env 3 \<lparr>energy = [(Finite 0, NaN)]\<rparr> demo_run))) = []"
  by (simp add: demo_defs train_body_def save_due_def exit_check_def energy_isnan_def isnan_def
      isfinite_def)

text \<open>
  The abort after a save. When the training step of iteration \<open>step\<close> yields an energy
  whose real part is NaN on some device, or when the kill flag is set at both reads of
  the iteration, and the save does not fail, then the main loop from that step on
  raises \<open>SystemExit\<close> with the abort banner, and what it does is exactly: sample,
  update the width, train, log, flush, and save the checkpoint of \<open>step\<close> with the
  state just trained. The save is its last call, so nothing of iteration \<open>step + 1\<close>
  is executed.
\<close>

theorem divergence_abort_ordering:
  assumes "step < iterations (optim cfg)"
    and "(NaN, im) \<in> set (energy (fst (snd (loop_body cfg env initial_step step r))))
         \<or> (kill_in_save_check env step \<and> kill_in_exit_check env step)"
    and "\<not> save_raises env step"
  shows "raised (main_loop cfg env initial_step step r) = Some (SystemExit abort_banner)
     \<and> trace (run_of (main_loop cfg env initial_step step r)) =
         trace r @ [McmcStep, UpdateMcmcWidth (step - initial_step), TrainingStep,
                    WriterLog step, ForceFlush,
                    SaveCheckpoint step (state (fst (loop_body cfg env initial_step step r)))]"
proof -
  obtain r' sts pmove where lb: "loop_body cfg env initial_step step r = (r', sts, pmove)"
    by (cases "loop_body cfg env initial_step step r") auto
  have tr: "trace r' = trace r @ [McmcStep, UpdateMcmcWidth (step - initial_step), TrainingStep]"
    using lb by (auto simp: loop_body_def Let_def split: prod.splits)
  have cause: "energy_isnan sts \<or> (kill_in_save_check env step \<and> kill_in_exit_check env step)"
    using assms(2) lb energy_isnanI by fastforce
  have due: "save_due cfg step sts (kill_in_save_check env step) now last_save = Inr True"
    for now last_save
    using cause by (auto simp: save_due_def)
  have ex: "exit_check env step sts q = Raise (SystemExit abort_banner) q" for q
    using cause by (auto simp: exit_check_def)
  have "iteration cfg env initial_step step r = train_body cfg env step sts r'"
    using lb by (simp add: iteration_def)
  then show ?thesis
    using assms(1,3) tr lb
    by (subst (1 2) main_loop.simps) (simp add: train_body_def due ex Let_def split: option.splits)
qed

text \<open>
  At step 7 with a NaN energy and no signal, and at step 7 with a finite energy and the
  kill flag set before the save condition is evaluated.
\<close>

theorem divergence_abort_ordering_witness:
  "7 < iterations (optim demo_cfg)
   \<and> energy (fst (snd (loop_body demo_cfg nan_env 0 7 run_at_7))) = [(NaN, Finite 0)]
   \<and> \<not> save_raises nan_env 7
   \<and> raised (main_loop demo_cfg nan_env 0 7 run_at_7) = Some (SystemExit abort_banner)
   \<and> saved_steps (trace (run_of (main_loop demo_cfg nan_env 0 7 run_at_7))) = [7]
   \<and> kill_in_save_check kill_env 7 \<and> kill_in_exit_check kill_env 7
   \<and> energy (fst (snd (loop_body demo_cfg kill_env 0 7 run_at_7))) = [(Finite 0, Finite 0)]
   \<and> raised (main_loop demo_cfg kill_env 0 7 run_at_7) = Some (SystemExit abort_banner)
   \<and> saved_steps (trace (run_of (main_loop demo_cfg kill_env 0 7 run_at_7))) = [7]"
  using divergence_abort_ordering [of 7 demo_cfg "Finite 0" nan_env 0 run_at_7]
    divergence_abort_ordering [of 7 demo_cfg "Finite 0" kill_env 0 run_at_7]
  by (simp add: demo_defs loop_body_def)

text \<open>
  The abort without a save. When the energy is not NaN, the save condition is
  evaluated with the kill flag unset and does not hold, and the flag is set when the
  exit condition reads it, the body of the loop raises \<open>SystemExit\<close> with the abort
  banner after logging, without flushing and without saving the checkpoint.
\<close>

lemma exit_without_save:
  assumes "save_due cfg step sts (kill_in_save_check env step) (clock env step) (last_save_time r) =
           Inr False"
    and "kill_in_exit_check env step"
  shows "raised (train_body cfg env step sts r) = Some (SystemExit abort_banner)
     \<and> events_since r (run_of (train_body cfg env step sts r)) = [WriterLog step]"
  using assms
  by (auto simp: train_body_def events_since_def exit_check_def Let_def split: option.splits)


text \<open>
  The same on a whole run of eleven iterations whose energy is NaN at step 7: the
  periodic save of step 4, then the save of step 7 as the last call, and the abort.
\<close>

lemma divergence_at_step_7:
  "raised (main_loop demo_cfg nan_env 0 0 demo_run) = Some (SystemExit abort_banner)
   \<and> saved_steps (trace (run_of (main_loop demo_cfg nan_env 0 0 demo_run))) = [4, 7]
   \<and> last (trace (run_of (main_loop demo_cfg nan_env 0 0 demo_run))) =
       SaveCheckpoint 7 \<lparr>params = 8, data = 8, opt_state = Some 0, mcmc_width = 1\<rparr>"
  by (simp add: main_loop.simps demo_defs iteration_def loop_body_def
      train_body_def save_due_def exit_check_def energy_isnan_def isnan_def)

text \<open>
  Claim C7, as the code has it. Whenever the body of the loop raises \<open>SystemExit\<close>, its
  message is the one abort banner: two aborts, whatever their causes, carry the same
  message.
\<close>

theorem abort_message_same:
  assumes "raised (train_body cfg env step sts r) = Some (SystemExit m)"
    and "raised (train_body cfg' env' step' sts' r') = Some (SystemExit m')"
  shows "m = m' \<and> m = abort_banner"
  using assms
  by (auto simp: train_body_def save_due_def exit_check_def Let_def
      split: option.splits if_splits sum.splits bool.splits)

theorem abort_message_witness:
  "raised (train_body demo_cfg demo_env 5 nan_stats demo_run) = Some (SystemExit abort_banner)
   \<and> raised (train_body demo_cfg kill_env 6 ok_stats demo_run) = Some (SystemExit abort_banner)
   \<and> abort_banner = ''============================== ABORT ==============================''"
  using abort_message_same [of demo_cfg demo_env 5 nan_stats demo_run abort_banner
      demo_cfg kill_env 6 ok_stats demo_run abort_banner]
  by (simp add: demo_defs train_body_def save_due_def exit_check_def energy_isnan_def isnan_def
      abort_banner_text)

text \<open>
  Claim C7 as stated fails: the abort after a NaN energy without any signal and the
  abort after a signal with a finite energy raise the same exception with the same
  message.
\<close>

theorem abort_message_counterexample:
  "energy_isnan nan_stats \<and> \<not> kill_in_exit_check demo_env 3
   \<and> \<not> energy_isnan ok_stats \<and> kill_in_exit_check kill_env 3
   \<and> raised (train_body demo_cfg demo_env 3 nan_stats demo_run) =
       raised (train_body demo_cfg kill_env 3 ok_stats demo_run)
   \<and> raised (train_body demo_cfg kill_env 3 ok_stats demo_run) = Some (SystemExit abort_banner)"
  by (simp add: demo_defs train_body_def save_due_def exit_check_def energy_isnan_def isnan_def)

text \<open>
  Claim C8, as the code has it. \<open>last_save_time\<close> is set to the current time whenever
  the save condition holds, before the flush and the save, whether the save then
  raises or not; when the save condition does not hold it is left as it was.
\<close>

theorem last_save_time_on_trigger:
  assumes "save_due cfg step sts (kill_in_save_check env step) (clock env step) (last_save_time r) =
           Inr due"
  shows "last_save_time (run_of (train_body cfg env step sts r)) =
     (if due then clock env step else last_save_time r)"
  using assms
  by (auto simp: train_body_def exit_check_def Let_def
      split: option.splits if_splits sum.splits bool.splits)

theorem last_save_time_witness:
  "save_due demo_cfg 4 ok_stats (kill_in_save_check failing_env 4) (clock failing_env 4)
     (last_save_time demo_run) = Inr True
   \<and> save_raises failing_env 4
   \<and> clock failing_env 4 = 15
   \<and> last_save_time (run_of (train_body demo_cfg failing_env 4 ok_stats demo_run)) = 15
   \<and> last_save_time (run_of (train_body demo_cfg demo_env 3 ok_stats demo_run)) = 0"
  using last_save_time_on_trigger [of demo_cfg 4 ok_stats failing_env demo_run True]
    last_save_time_on_trigger [of demo_cfg 3 ok_stats demo_env demo_run False]
  by (simp add: demo_defs save_due_def energy_isnan_def isnan_def)

text \<open>
  Claim C8 as stated fails: at step 4 the save raises, and where the exception leaves
  \<open>train\<close> the last save time has gone from 0 to the current time 15.
\<close>

theorem last_save_time_counterexample:
  "raised (train_body demo_cfg failing_env 4 ok_stats demo_run) = Some SaveError
   \<and> saved_steps (trace (run_of (train_body demo_cfg failing_env 4 ok_stats demo_run))) = []
   \<and> last_save_time demo_run = 0
   \<and> last_save_time (run_of (train_body demo_cfg failing_env 4 ok_stats demo_run)) = 15"
  by (simp add: demo_defs train_body_def save_due_def exit_check_def energy_isnan_def isnan_def)

section \<open>Start of a run (train_loop)\<close>

text \<open>
  Claim C3. When a checkpoint is restored, the initial step of the run is 0 if the
  optimizer is \<open>none\<close>, a restore path is configured and it differs from the save
  path, whatever step the checkpoint holds; under every other combination it is the
  step of the checkpoint. In both cases the parameters and the configurations of the
  state the run starts from are those of the checkpoint.
\<close>

theorem warm_start_reset:
  assumes "try_restore_checkpoint env = Some (restored_step, st)"
  shows "fst (resolve cfg env) =
           (if optimizer (optim cfg) = Some none
               \<and> restore_path (log_cfg cfg) \<noteq> None
               \<and> restore_path (log_cfg cfg) \<noteq> save_path (log_cfg cfg)
            then 0 else restored_step)
         \<and> params (snd (snd (resolve cfg env))) = params st
         \<and> data (snd (snd (resolve cfg env))) = data st"
  using assms by (simp add: resolve_def warm_start_def Let_def split: option.splits prod.splits)

text \<open>
  A checkpoint of step 500 with optimizer \<open>none\<close> and save path \<open>ckpt\<close>: restored from
  \<open>old\<close> the run starts at step 0, restored from \<open>ckpt\<close> at step 500, with the
  parameters 42 and the configurations 7 of the checkpoint.
\<close>

theorem warm_start_reset_witness:
  "try_restore_checkpoint (demo_env\<lparr>try_restore_checkpoint := Some demo_checkpoint\<rparr>) =
     Some (500, snd demo_checkpoint)
   \<and> fst (resolve (demo_cfg\<lparr>optim := \<lparr>iterations = 1000, optimizer = Some none\<rparr>,
                          log_cfg := (log_cfg demo_cfg)\<lparr>restore_path := Some ''old''\<rparr>\<rparr>)
          (demo_env\<lparr>try_restore_checkpoint := Some demo_checkpoint\<rparr>)) = 0
   \<and> params (snd (snd (resolve (demo_cfg\<lparr>optim := \<lparr>iterations = 1000, optimizer = Some none\<rparr>,
                          log_cfg := (log_cfg demo_cfg)\<lparr>restore_path := Some ''old''\<rparr>\<rparr>)
          (demo_env\<lparr>try_restore_checkpoint := Some demo_checkpoint\<rparr>)))) = 42
   \<and> data (snd (snd (resolve (demo_cfg\<lparr>optim := \<lparr>iterations = 1000, optimizer = Some none\<rparr>,
                          log_cfg := (log_cfg demo_cfg)\<lparr>restore_path := Some ''old''\<rparr>\<rparr>)
          (demo_env\<lparr>try_restore_checkpoint := Some demo_checkpoint\<rparr>)))) = 7
   \<and> fst (resolve (demo_cfg\<lparr>optim := \<lparr>iterations = 1000, optimizer = Some none\<rparr>,
                          log_cfg := (log_cfg demo_cfg)\<lparr>restore_path := Some ''ckpt''\<rparr>\<rparr>)
          (demo_env\<lparr>try_restore_checkpoint := Some demo_checkpoint\<rparr>)) = 500"
  using warm_start_reset [of "demo_env\<lparr>try_restore_checkpoint := Some demo_checkpoint\<rparr>" 500
      "snd demo_checkpoint"
      "demo_cfg\<lparr>optim := \<lparr>iterations = 1000, optimizer = Some none\<rparr>,
                log_cfg := (log_cfg demo_cfg)\<lparr>restore_path := Some ''old''\<rparr>\<rparr>"]
    warm_start_reset [of "demo_env\<lparr>try_restore_checkpoint := Some demo_checkpoint\<rparr>" 500
      "snd demo_checkpoint"
      "demo_cfg\<lparr>optim := \<lparr>iterations = 1000, optimizer = Some none\<rparr>,
                log_cfg := (log_cfg demo_cfg)\<lparr>restore_path := Some ''ckpt''\<rparr>\<rparr>"]
  by (simp add: demo_defs demo_checkpoint_def)

text \<open>
  Claim C9. The burn-in block runs if and only if the initial step is 0. When it runs,
  the random key and the configurations become what as many rounds as
  \<open>range(cfg.mcmc.burn_in)\<close> has elements make of them, each round splitting the key
  and giving the configurations to the sampler together with the parameters, the
  subkey and the step width; its calls are exactly that many calls of the sampler,
  followed by the log line and, if configured, the initial energy, so that no call of
  the step-width controller and no save of a checkpoint is among them; and every
  other local, the window of acceptance rates and the step width among them, is as
  before. When the initial step is not 0 nothing happens at all.
\<close>

theorem burn_in_gating:
  "burn_in_phase cfg env initial_step r =
     (if initial_step = 0 then
        r\<lparr>sharded_key :=
            fst (((\<lambda>(key, d). (fst (p_split env key),
                    fst (pmap_mcmc_step env (params (state r)) d (snd (p_split env key))
                           (mcmc_width (state r))))) ^^ nat (burn_in (mcmc cfg)))
                  (sharded_key r, data (state r))),
          state := (state r)\<lparr>data :=
            snd (((\<lambda>(key, d). (fst (p_split env key),
                    fst (pmap_mcmc_step env (params (state r)) d (snd (p_split env key))
                           (mcmc_width (state r))))) ^^ nat (burn_in (mcmc cfg)))
                  (sharded_key r, data (state r)))\<rparr>,
          trace := trace r @ replicate (nat (burn_in (mcmc cfg))) McmcStep @
                   InfoBurnIn # (if initial_energy (log_cfg cfg) then [InfoInitialEnergy] else [])\<rparr>
      else r)
   \<and> trace (burn_in_phase cfg env initial_step r) =
     trace r @
       (if initial_step = 0
        then replicate (nat (burn_in (mcmc cfg))) McmcStep @
             InfoBurnIn # (if initial_energy (log_cfg cfg) then [InfoInitialEnergy] else [])
        else [])
   \<and> pmoves (burn_in_phase cfg env initial_step r) = pmoves r
   \<and> mcmc_width (state (burn_in_phase cfg env initial_step r)) = mcmc_width (state r)
   \<and> (initial_step \<noteq> 0 \<longrightarrow> burn_in_phase cfg env initial_step r = r)"
  by (simp add: burn_in_phase_def Let_def burn_in_rounds_eq)

text \<open>
  With two burn-in rounds and a sampler that counts its calls in the configurations:
  from step 0 the configurations go from 0 to 2 and the key from 0 over 1 to 3, with
  two sampler calls and the two log lines; from step 500 nothing changes.
\<close>

theorem burn_in_gating_witness:
  "burn_in_phase demo_cfg demo_env 0 demo_run =
     demo_run\<lparr>sharded_key := 3,
              state := \<lparr>params = 0, data = 2, opt_state = Some 0, mcmc_width = 1\<rparr>,
              trace := [McmcStep, McmcStep, InfoBurnIn, InfoInitialEnergy]\<rparr>
   \<and> burn_in_phase demo_cfg demo_env 500 demo_run = demo_run"
  using burn_in_gating [of demo_cfg demo_env 0 demo_run]
    burn_in_gating [of demo_cfg demo_env 500 demo_run]
  by (simp add: demo_defs numeral_2_eq_2)

text \<open>
  Claim C6, as the code has it, with the controller modelled from the spec. On the
  iteration with step \<open>s\<close> of a run whose initial step is \<open>s0\<close>, the controller writes
  the latest acceptance rate into the slot \<open>(s - s0) mod N\<close> of the window of length
  \<open>N\<close>; this is the slot \<open>s mod N\<close> when \<open>s0\<close> is a multiple of \<open>N\<close>, as in every run
  that starts at step 0.
\<close>

theorem window_slot:
  assumes "update_mcmc_width env = update_mcmc_width_spec rescale"
    and "0 < adapt_frequency (mcmc cfg)"
    and "length (pmoves r) = nat (adapt_frequency (mcmc cfg))"
  shows "pmoves (fst (loop_body cfg env initial_step step r)) =
           (pmoves r)[nat ((step - initial_step) mod adapt_frequency (mcmc cfg)) :=
                        snd (snd (loop_body cfg env initial_step step r))]
     \<and> pmoves (fst (loop_body cfg env initial_step step r))
         ! nat ((step - initial_step) mod adapt_frequency (mcmc cfg)) =
         snd (snd (loop_body cfg env initial_step step r))
     \<and> (initial_step mod adapt_frequency (mcmc cfg) = 0 \<longrightarrow>
          (step - initial_step) mod adapt_frequency (mcmc cfg) =
          step mod adapt_frequency (mcmc cfg))"
proof -
  let ?n = "adapt_frequency (mcmc cfg)"
  have upd: "pmoves (fst (loop_body cfg env initial_step step r)) =
           (pmoves r)[nat ((step - initial_step) mod ?n) :=
                        snd (snd (loop_body cfg env initial_step step r))]"
    using assms(1)
    by (auto simp: loop_body_def update_mcmc_width_spec_def Let_def split: prod.splits)
  have "(step - initial_step) mod ?n < ?n" "0 \<le> (step - initial_step) mod ?n"
    using assms(2) by simp_all
  then have "nat ((step - initial_step) mod ?n) < length (pmoves r)"
    using assms(3) by linarith
  then have rd: "pmoves (fst (loop_body cfg env initial_step step r))
         ! nat ((step - initial_step) mod ?n) = snd (snd (loop_body cfg env initial_step step r))"
    by (simp add: upd)
  have "(step - initial_step) mod ?n = step mod ?n" if "initial_step mod ?n = 0"
    using that by (metis mod_diff_right_eq diff_zero)
  with upd rd show ?thesis by blast
qed

text \<open>
  With a window of 4: step 9 of a run resumed at step 4 writes slot 1, and step 6 of a
  run started at step 0 writes slot 2.
\<close>

theorem window_slot_witness:
  "update_mcmc_width spec_env = update_mcmc_width_spec (\<lambda>w window. w + 1)
   \<and> 0 < adapt_frequency (mcmc demo_cfg)
   \<and> length (pmoves demo_run) = nat (adapt_frequency (mcmc demo_cfg))
   \<and> pmoves (fst (loop_body demo_cfg spec_env 4 9 demo_run)) = [0, 1 / 2, 0, 0]
   \<and> pmoves (fst (loop_body demo_cfg spec_env 0 6 demo_run)) = [0, 0, 1 / 2, 0]"
  using window_slot [of spec_env "\<lambda>w window. w + 1" demo_cfg demo_run 4 9]
    window_slot [of spec_env "\<lambda>w window. w + 1" demo_cfg demo_run 0 6]
  by (simp add: demo_defs loop_body_def update_mcmc_width_spec_def)

text \<open>
  Claim C6 as stated fails for a resumed run: with a window of 4, the first iteration
  of a run resumed at step 6 has step 6 and writes the acceptance rate 1/2 into slot 0,
  not into slot \<open>6 mod 4 = 2\<close>.
\<close>

theorem window_slot_counterexample:
  "pmoves demo_run = [0, 0, 0, 0]
   \<and> snd (snd (loop_body demo_cfg spec_env 6 6 demo_run)) = 1 / 2
   \<and> pmoves (fst (loop_body demo_cfg spec_env 6 6 demo_run)) = [1 / 2, 0, 0, 0]
   \<and> (pmoves demo_run)[nat (6 mod adapt_frequency (mcmc demo_cfg)) := 1 / 2] = [0, 0, 1 / 2, 0]"
  by (simp add: demo_defs loop_body_def update_mcmc_width_spec_def)

section \<open>Termination signals (GracefulKiller)\<close>

text \<open>
  Claim C4. After the killer has been constructed, the first call of the handler, for
  either signal, sets \<open>kill_now\<close> and leaves the process with the handlers it had before
  the construction, for both signals. A second call, for either signal, returns
  without any effect: the state is the same, and among all the effects of
  construction and both calls the flag is assigned once. In general a call of the
  handler with the flag set changes nothing, and a call with the flag unset sets it
  and installs the two remembered handlers.
\<close>

theorem signal_idempotence:
  "kill_now (killer (exit_gracefully sig (GracefulKiller_init t)))
   \<and> table (exit_gracefully sig (GracefulKiller_init t)) = t
   \<and> exit_gracefully sig' (exit_gracefully sig (GracefulKiller_init t)) =
       exit_gracefully sig (GracefulKiller_init t)
   \<and> length (filter (\<lambda>e. e = SetKillNow)
        (ktrace (exit_gracefully sig' (exit_gracefully sig (GracefulKiller_init t))))) = 1
   \<and> (kill_now (killer w) \<longrightarrow> exit_gracefully sig w = w)
   \<and> (\<not> kill_now (killer w) \<longrightarrow>
        kill_now (killer (exit_gracefully sig w))
        \<and> on_int (table (exit_gracefully sig w)) = original_int (killer w)
        \<and> on_term (table (exit_gracefully sig w)) = original_term (killer w))"
  by (cases sig; cases sig')
     (simp_all add: exit_gracefully_def GracefulKiller_init_def Let_def split: prod.splits)

text \<open>
  In a process with Python's default handlers: after SIGINT the defaults are back, a
  following SIGTERM or SIGINT given to the handler changes nothing, and the effects of
  two calls are those of one.
\<close>

theorem signal_idempotence_witness:
  "kill_now (killer (exit_gracefully SIGINT (GracefulKiller_init python_defaults)))
   \<and> table (exit_gracefully SIGINT (GracefulKiller_init python_defaults)) = python_defaults
   \<and> exit_gracefully SIGTERM (exit_gracefully SIGINT (GracefulKiller_init python_defaults)) =
       exit_gracefully SIGINT (GracefulKiller_init python_defaults)
   \<and> ktrace (exit_gracefully SIGINT (exit_gracefully SIGINT (GracefulKiller_init python_defaults))) =
       [SetHandler SIGINT ExitGracefully, SetHandler SIGTERM ExitGracefully, Print [CHR 0x0D],
        SetHandler SIGINT default_int_handler, SetHandler SIGTERM SIG_DFL, SetKillNow]"
  using signal_idempotence [of SIGINT python_defaults SIGTERM
      "exit_gracefully SIGINT (GracefulKiller_init python_defaults)"]
    signal_idempotence [of SIGINT python_defaults SIGINT
      "exit_gracefully SIGINT (GracefulKiller_init python_defaults)"]
  by (simp add: exit_gracefully_def GracefulKiller_init_def python_defaults_def)

section \<open>Configuration dictionaries (from_dict)\<close>

text \<open>
  Claim C10. For every dataclass and every value, an exception that leaves
  \<open>from_dict\<close> is the ValueError that names the dataclass. For every dictionary the
  result is the result for the dictionary without the keys that are no fields of the
  dataclass, and a key that is no field can be taken out of any place of the
  dictionary without changing the result: such keys never make \<open>from_dict\<close> fail.
\<close>

theorem from_dict_extra_keys_and_errors:
  "(from_dict c d = Inl e \<longrightarrow> e = ValueError (cname c))
   \<and> from_dict c (Dict kvs) = from_dict c (Dict (filter (\<lambda>(f, v). fieldtypes c f \<noteq> None) kvs))
   \<and> (fieldtypes c f = None \<longrightarrow> from_dict c (Dict (xs @ (f, v) # ys)) = from_dict c (Dict (xs @ ys)))"
  by (simp add: from_dict_Inl convert_filter convert_extra_key del: not_None_eq)

text \<open>
  For the dataclass \<open>Network\<close>: a number where the nested \<open>PsiformerNetwork\<close> is expected
  raises the ValueError of \<open>Network\<close>, and the key \<open>bogus\<close> makes no difference.
\<close>

theorem from_dict_extra_keys_and_errors_witness:
  "from_dict Network (Dict [(''type'', Str ''free''), (''psiformer'', Scalar 3)]) =
     Inl (ValueError ''Network'')
   \<and> fieldtypes Network ''bogus'' = None
   \<and> from_dict Network
       (Dict [(''type'', Str ''free''), (''bogus'', Scalar 3),
              (''psiformer'', Dict [(''num_heads'', Scalar 8)])]) =
     from_dict Network
       (Dict [(''type'', Str ''free''), (''psiformer'', Dict [(''num_heads'', Scalar 8)])])
   \<and> from_dict Network
       (Dict [(''type'', Str ''free''), (''psiformer'', Dict [(''num_heads'', Scalar 8)])]) =
     Inr (Obj ''Network''
           [(''type'', PlainV (Str ''free'')), (''orbital'', DefaultV),
            (''psiformer'',
             Obj ''PsiformerNetwork''
               [(''num_heads'', PlainV (Scalar 8)), (''heads_dim'', DefaultV),
                (''num_layers'', DefaultV), (''determinants'', DefaultV)])])"
  using from_dict_extra_keys_and_errors
      [of Network "Dict [(''type'', Str ''free''), (''psiformer'', Scalar 3)]"
          "ValueError ''Network''" "[]" "''bogus''" "[(''type'', Str ''free'')]" "Scalar 3"
          "[(''psiformer'', Dict [(''num_heads'', Scalar 8)])]"]
  by (simp add: Network_def PsiformerNetwork_def fieldtypes_def reraise_def construct_dataclass_def)

end
